theory Spec2Isabelle
  imports Main
begin

section \<open>The browser and framework values the two units handle\<close>

text \<open>
  A \<^verbatim>\<open>File\<close> is an opaque handle with a name and binary content; only
  \<^verbatim>\<open>file.name\<close> is read by the code.
\<close>

record File =
  name :: string
  content :: string

text \<open>
  The value of a form control has TypeScript type \<^verbatim>\<open>any\<close>. The code meets two kinds
  of value: a string, and the \<^verbatim>\<open>undefined\<close> that the optional chaining
  \<^verbatim>\<open>get('name')?.value\<close> yields when there is no such control.
\<close>

datatype jsval = JString string | JUndefined

record form_control =
  ctl_value :: jsval

record form_group =
  controls :: "string \<rightharpoonup> form_control"

text \<open>
  \<^verbatim>\<open>fb.group({ key: [initial], ... })\<close>: one control per key of the configuration
  object, holding the first element of its array as initial value.
\<close>

definition fb_group :: "(string \<times> jsval) list \<Rightarrow> form_group" where
  "fb_group cfg = \<lparr>controls = map_of (map (\<lambda>(k, v). (k, \<lparr>ctl_value = v\<rparr>)) cfg)\<rparr>"

text \<open>\<^verbatim>\<open>FormGroup.get(path)\<close>: the control, or null (here \<open>None\<close>) when there is none.\<close>

definition get :: "form_group \<Rightarrow> string \<Rightarrow> form_control option" where
  "get fg path = controls fg path"

text \<open>
  The template binds a text input to a control: when the user types, the control of that
  key takes the typed string; a key with no control is left alone.
\<close>

definition user_input :: "string \<Rightarrow> string \<Rightarrow> form_group \<Rightarrow> form_group" where
  "user_input key s fg =
     (case controls fg key of
        None \<Rightarrow> fg
      | Some ctl \<Rightarrow> fg\<lparr>controls := (controls fg)(key \<mapsto> ctl\<lparr>ctl_value := JString s\<rparr>)\<rparr>)"

text \<open>
  \<^verbatim>\<open>FormData\<close> is an ordered list of entries; \<^verbatim>\<open>append\<close> adds one at the end and
  keeps earlier entries of the same key. A value that is not a blob is converted to a
  string (\<^verbatim>\<open>undefined\<close> becomes the text \<^verbatim>\<open>undefined\<close>); a blob is stored
  with the filename given as third argument.
\<close>

datatype entry_value = Text string | FileEntry File string

type_synonym form_data = "(string \<times> entry_value) list"

definition new_FormData :: form_data where
  "new_FormData = []"

fun to_text :: "jsval \<Rightarrow> string" where
  "to_text (JString s) = s"
| "to_text JUndefined = ''undefined''"

definition append :: "form_data \<Rightarrow> string \<Rightarrow> jsval \<Rightarrow> form_data" where
  "append fd key v = fd @ [(key, Text (to_text v))]"

definition append_blob :: "form_data \<Rightarrow> string \<Rightarrow> File \<Rightarrow> string \<Rightarrow> form_data" where
  "append_blob fd key blob filename = fd @ [(key, FileEntry blob filename)]"

text \<open>\<^verbatim>\<open>Array.prototype.forEach\<close> with a callback that updates the form data.\<close>

fun forEach :: "'a list \<Rightarrow> ('a \<Rightarrow> nat \<Rightarrow> form_data \<Rightarrow> form_data) \<Rightarrow> nat \<Rightarrow> form_data \<Rightarrow> form_data" where
  "forEach [] f index fd = fd"
| "forEach (x # xs) f index fd = forEach xs f (Suc index) (f x index fd)"

section \<open>The HTTP transport and the console\<close>

text \<open>
  The HTTP client is injected into both units. It is modelled as a substitutable
  transport: \<open>respond\<close> says how each request ends (a response, or the one kind of
  failure there is). The types of responses and failures are opaque, hence type variables.
\<close>

datatype http_verb = GET | POST

record request =
  verb :: http_verb
  url :: string
  body :: "form_data option"

datatype ('r, 'e) outcome = Response 'r | Failure 'e

record ('r, 'e) http_client =
  respond :: "request \<Rightarrow> ('r, 'e) outcome"

text \<open>
  The handle that \<^verbatim>\<open>http.get\<close> and \<^verbatim>\<open>http.post\<close> return is cold: it stands for
  a request that has not been sent. Each subscription of it sends the request once and
  ends in the client's answer to that request, \<open>resolves\<close>; a handle that nobody
  subscribes to sends nothing.
\<close>

record ('r, 'e) observable =
  source :: request
  resolves :: "('r, 'e) outcome"

datatype ('r, 'e) log_entry = ConsoleLog string 'r | ConsoleError string 'e

text \<open>
  What is observable outside the two units: the requests sent, in order; the lines
  written to the console; and the failures that reached no error callback, which the
  runtime reports as uncaught errors.
\<close>

record ('r, 'e) world =
  requests :: "request list"
  console :: "('r, 'e) log_entry list"
  uncaught :: "'e list"

text \<open>
  \<^verbatim>\<open>http.get(url)\<close> and \<^verbatim>\<open>http.post(url, body)\<close> build the handle and leave the
  world as it is.
\<close>

definition http_get ::
  "('r, 'e) http_client \<Rightarrow> string \<Rightarrow> ('r, 'e) world \<Rightarrow> ('r, 'e) observable \<times> ('r, 'e) world" where
  "http_get h u w =
     (let r = \<lparr>verb = GET, url = u, body = None\<rparr>
      in (\<lparr>source = r, resolves = respond h r\<rparr>, w))"

definition http_post ::
  "('r, 'e) http_client \<Rightarrow> string \<Rightarrow> form_data \<Rightarrow> ('r, 'e) world \<Rightarrow>
   ('r, 'e) observable \<times> ('r, 'e) world" where
  "http_post h u fd w =
     (let r = \<lparr>verb = POST, url = u, body = Some fd\<rparr>
      in (\<lparr>source = r, resolves = respond h r\<rparr>, w))"

text \<open>
  \<^verbatim>\<open>observable.subscribe(next, error)\<close>: the request of the handle is sent, and its
  outcome goes to the matching callback. The error callback is optional; a failure with
  no error callback is an uncaught error. The callbacks run in a later turn of the event
  loop; they are applied here at once, which is the state the world is in after that turn.
\<close>

definition subscribe ::
  "('r, 'e) observable \<Rightarrow> ('r \<Rightarrow> ('r, 'e) world \<Rightarrow> ('r, 'e) world) \<Rightarrow>
   ('e \<Rightarrow> ('r, 'e) world \<Rightarrow> ('r, 'e) world) option \<Rightarrow> ('r, 'e) world \<Rightarrow> ('r, 'e) world" where
  "subscribe obs next error w =
     (let w1 = w\<lparr>requests := requests w @ [source obs]\<rparr>
      in case resolves obs of
           Response res \<Rightarrow> next res w1
         | Failure err \<Rightarrow>
             (case error of
                Some handler \<Rightarrow> handler err w1
              | None \<Rightarrow> w1\<lparr>uncaught := uncaught w1 @ [err]\<rparr>))"

definition console_log :: "string \<Rightarrow> 'r \<Rightarrow> ('r, 'e) world \<Rightarrow> ('r, 'e) world" where
  "console_log label res w = w\<lparr>console := console w @ [ConsoleLog label res]\<rparr>"

definition console_error :: "string \<Rightarrow> 'e \<Rightarrow> ('r, 'e) world \<Rightarrow> ('r, 'e) world" where
  "console_error label err w = w\<lparr>console := console w @ [ConsoleError label err]\<rparr>"

section \<open>The submission form: \<^verbatim>\<open>MyComponent\<close>\<close>

record ('r, 'e) MyComponent =
  http :: "('r, 'e) http_client"
  myForm :: form_group
  selectedFiles :: "File list"

text \<open>
  The constructor: the form group has the one control \<^verbatim>\<open>name\<close>, initially the empty
  string; the field initialiser sets the selection to the empty array. The form builder
  has no state of its own; its \<^verbatim>\<open>group\<close> method is \<open>fb_group\<close>.
\<close>

definition constructor :: "('r, 'e) http_client \<Rightarrow> ('r, 'e) MyComponent" where
  "constructor h =
     \<lparr>http = h, myForm = fb_group [(''name'', JString '''')], selectedFiles = []\<rparr>"

text \<open>The change event of a file input: \<^verbatim>\<open>event.target.files\<close> is its file list.\<close>

record event_target =
  files :: "File list"

record event =
  target :: event_target

definition Array_from :: "'a list \<Rightarrow> 'a list" where
  "Array_from xs = xs"

definition onFilesSelected :: "event \<Rightarrow> ('r, 'e) MyComponent \<Rightarrow> ('r, 'e) MyComponent" where
  "onFilesSelected ev c = c\<lparr>selectedFiles := Array_from (files (target ev))\<rparr>"

text \<open>
  The first half of \<^verbatim>\<open>onSubmit\<close>: the form data, with the name first and then one
  entry per selected file.
\<close>

definition onSubmit_formData :: "('r, 'e) MyComponent \<Rightarrow> form_data" where
  "onSubmit_formData c =
     (let formData = new_FormData;
          formData = append formData ''name''
            (case get (myForm c) ''name'' of None \<Rightarrow> JUndefined | Some ctl \<Rightarrow> ctl_value ctl)
      in forEach (selectedFiles c)
           (\<lambda>file index fd. append_blob fd ''source_files'' file (name file)) 0 formData)"

text \<open>
  \<^verbatim>\<open>onSubmit\<close>: posts the form data and subscribes with the two logging callbacks.
  It assigns to no field of the component, and none of its statements throws: the lookup
  of the control is guarded by optional chaining, and a failure of the request reaches
  the error callback.
\<close>

definition onSubmit ::
  "('r, 'e) MyComponent \<Rightarrow> ('r, 'e) world \<Rightarrow> ('r, 'e) MyComponent \<times> ('r, 'e) world" where
  "onSubmit c w =
     (let formData = onSubmit_formData c;
          (obs, w1) = http_post (http c) ''/your-api-endpoint'' formData w;
          w2 = subscribe obs (\<lambda>res. console_log ''Success'' res)
                 (Some (\<lambda>err. console_error ''Error'' err)) w1
      in (c, w2))"

section \<open>The configuration fetch: \<^verbatim>\<open>ConfigService\<close>\<close>

record ('r, 'e) ConfigService =
  cfg_http :: "('r, 'e) http_client"

definition loadConfig ::
  "('r, 'e) ConfigService \<Rightarrow> ('r, 'e) world \<Rightarrow> ('r, 'e) observable \<times> ('r, 'e) world" where
  "loadConfig svc w = http_get (cfg_http svc) ''/api/config'' w"

section \<open>Sequences of user interactions\<close>

text \<open>
  What can happen to a component after its construction: the user selects files, types
  into the name input, or submits.
\<close>

datatype action = is_SelectFiles: SelectFiles event | TypeName string | Submit

fun step ::
  "action \<Rightarrow> ('r, 'e) MyComponent \<times> ('r, 'e) world \<Rightarrow> ('r, 'e) MyComponent \<times> ('r, 'e) world" where
  "step (SelectFiles ev) (c, w) = (onFilesSelected ev c, w)"
| "step (TypeName s) (c, w) = (c\<lparr>myForm := user_input ''name'' s (myForm c)\<rparr>, w)"
| "step Submit (c, w) = onSubmit c w"

fun run ::
  "action list \<Rightarrow> ('r, 'e) MyComponent \<times> ('r, 'e) world \<Rightarrow> ('r, 'e) MyComponent \<times> ('r, 'e) world" where
  "run [] s = s"
| "run (a # as) s = run as (step a s)"

text \<open>The name control exists and holds a string.\<close>

definition name_is_string :: "form_group \<Rightarrow> bool" where
  "name_is_string fg =
     (case get fg ''name'' of
        None \<Rightarrow> False
      | Some ctl \<Rightarrow> (case ctl_value ctl of JString s \<Rightarrow> True | JUndefined \<Rightarrow> False))"

section \<open>Properties of the form data\<close>

lemma forEach_append_blob:
  "forEach fs (\<lambda>file index fd. append_blob fd key file (name file)) i fd =
     fd @ map (\<lambda>f. (key, FileEntry f (name f))) fs"
  by (induction fs arbitrary: i fd) (simp_all add: append_blob_def)

lemma onSubmit_formData_eq:
  "onSubmit_formData c =
     (''name'', Text (to_text (case get (myForm c) ''name'' of
                                 None \<Rightarrow> JUndefined | Some ctl \<Rightarrow> ctl_value ctl)))
     # map (\<lambda>f. (''source_files'', FileEntry f (name f))) (selectedFiles c)"
  by (simp add: onSubmit_formData_def new_FormData_def append_def forEach_append_blob)


section \<open>What a submission does to the world\<close>

lemma onSubmit_component: "fst (onSubmit c w) = c"
  by (simp add: onSubmit_def http_post_def Let_def)

lemma onSubmit_world:
  "snd (onSubmit c w) =
     (let r = \<lparr>verb = POST, url = ''/your-api-endpoint'', body = Some (onSubmit_formData c)\<rparr>;
          w1 = w\<lparr>requests := requests w @ [r]\<rparr>
      in case respond (http c) r of
           Response res \<Rightarrow> w1\<lparr>console := console w @ [ConsoleLog ''Success'' res]\<rparr>
         | Failure err \<Rightarrow> w1\<lparr>console := console w @ [ConsoleError ''Error'' err]\<rparr>)"
  by (simp add: onSubmit_def http_post_def subscribe_def console_log_def console_error_def
      Let_def split: outcome.splits)

lemma onSubmit_requests:
  "requests (snd (onSubmit c w)) =
     requests w @ [\<lparr>verb = POST, url = ''/your-api-endpoint'', body = Some (onSubmit_formData c)\<rparr>]"
  by (simp add: onSubmit_world Let_def split: outcome.splits)

lemma filter_name_formData:
  "filter (\<lambda>p. fst p = ''name'') (onSubmit_formData c) = [hd (onSubmit_formData c)]"
  by (simp add: onSubmit_formData_eq)

lemma filter_files_formData:
  "filter (\<lambda>p. fst p = ''source_files'') (onSubmit_formData c) =
     map (\<lambda>f. (''source_files'', FileEntry f (name f))) (selectedFiles c)"
  by (simp add: onSubmit_formData_eq)

section \<open>The name control along any sequence of interactions\<close>

lemma name_is_string_constructor: "name_is_string (myForm (constructor h))"
  by (simp add: name_is_string_def constructor_def fb_group_def get_def)

lemma name_is_string_user_input:
  "name_is_string fg \<Longrightarrow> name_is_string (user_input ''name'' s fg)"
  by (auto simp: name_is_string_def user_input_def get_def split: option.splits)

lemma name_is_string_step:
  "name_is_string (myForm (fst st)) \<Longrightarrow> name_is_string (myForm (fst (step a st)))"
proof (cases st)
  case (Pair c w)
  assume inv: "name_is_string (myForm (fst st))"
  show ?thesis
  proof (cases a)
    case (SelectFiles ev)
    with Pair inv show ?thesis by (simp add: onFilesSelected_def)
  next
    case (TypeName s)
    with Pair inv show ?thesis by (simp add: name_is_string_user_input)
  next
    case Submit
    with Pair inv show ?thesis by (simp add: onSubmit_component)
  qed
qed

lemma name_is_string_run:
  "name_is_string (myForm (fst st)) \<Longrightarrow> name_is_string (myForm (fst (run as st)))"
proof (induction as arbitrary: st)
  case Nil
  then show ?case by simp
next
  case (Cons a as)
  from Cons.prems have "name_is_string (myForm (fst (step a st)))"
    by (rule name_is_string_step)
  then show ?case by (simp add: Cons.IH)
qed

lemma name_is_stringD:
  "name_is_string fg \<Longrightarrow> \<exists>ctl s. get fg ''name'' = Some ctl \<and> ctl_value ctl = JString s"
  by (auto simp: name_is_string_def split: option.splits jsval.splits)

lemma formData_of_string_name:
  "get (myForm c) ''name'' = Some ctl \<Longrightarrow> ctl_value ctl = JString s \<Longrightarrow>
   onSubmit_formData c =
     (''name'', Text s) # map (\<lambda>f. (''source_files'', FileEntry f (name f))) (selectedFiles c)"
  by (simp add: onSubmit_formData_eq)

text \<open>Without a file selection among the interactions, the selection stays empty.\<close>

lemma selectedFiles_step:
  "\<not> is_SelectFiles a \<Longrightarrow> selectedFiles (fst (step a st)) = selectedFiles (fst st)"
  by (cases st; cases a) (simp_all add: onSubmit_component)

lemma selectedFiles_run:
  "filter is_SelectFiles as = [] \<Longrightarrow> selectedFiles (fst (run as st)) = selectedFiles (fst st)"
proof (induction as arbitrary: st)
  case Nil
  then show ?case by simp
next
  case (Cons a as)
  from Cons.prems have a: "\<not> is_SelectFiles a" and as: "filter is_SelectFiles as = []"
    by (auto split: if_splits)
  show ?case by (simp add: Cons.IH [OF as] selectedFiles_step [OF a])
qed

section \<open>The submission form: payload\<close>

text \<open>
  C1. Whatever string \<open>s\<close> the name control holds and whatever files are selected,
  the form data that \<^verbatim>\<open>onSubmit\<close> builds is the one entry \<^verbatim>\<open>name\<close> with value
  \<open>s\<close>, followed by one \<^verbatim>\<open>source_files\<close> entry per selected file, in selection
  order, each with the file's own name as filename: so exactly one entry has key
  \<^verbatim>\<open>name\<close> and exactly as many have key \<^verbatim>\<open>source_files\<close> as there are selected
  files. \<^verbatim>\<open>onSubmit\<close> sends exactly one more request: a POST to
  \<^verbatim>\<open>/your-api-endpoint\<close> with that form data as body.
\<close>

theorem submit_payload:
  assumes "get (myForm c) ''name'' = Some ctl" and "ctl_value ctl = JString s"
  shows "onSubmit_formData c =
           (''name'', Text s)
           # map (\<lambda>f. (''source_files'', FileEntry f (name f))) (selectedFiles c)
         \<and> filter (\<lambda>p. fst p = ''name'') (onSubmit_formData c) = [(''name'', Text s)]
         \<and> length (filter (\<lambda>p. fst p = ''source_files'') (onSubmit_formData c))
             = length (selectedFiles c)
         \<and> requests (snd (onSubmit c w)) =
             requests w @ [\<lparr>verb = POST, url = ''/your-api-endpoint'',
                              body = Some (onSubmit_formData c)\<rparr>]"
proof -
  have fd: "onSubmit_formData c =
      (''name'', Text s)
      # map (\<lambda>f. (''source_files'', FileEntry f (name f))) (selectedFiles c)"
    using assms by (rule formData_of_string_name)
  have one: "filter (\<lambda>p. fst p = ''name'') (onSubmit_formData c) = [(''name'', Text s)]"
    by (simp add: fd)
  have many: "length (filter (\<lambda>p. fst p = ''source_files'') (onSubmit_formData c))
      = length (selectedFiles c)"
    by (simp add: filter_files_formData)
  from fd one many onSubmit_requests [of c w] show ?thesis by blast
qed

text \<open>
  The scenario of the specification: the user selects \<^verbatim>\<open>a.txt\<close> and \<^verbatim>\<open>b.png\<close>,
  types the name Alice and submits.
\<close>

theorem submit_payload_witness:
  "get (myForm (fst (run [SelectFiles \<lparr>target = \<lparr>files =
            [\<lparr>name = ''a.txt'', content = ''A''\<rparr>, \<lparr>name = ''b.png'', content = ''B''\<rparr>]\<rparr>\<rparr>,
          TypeName ''Alice'']
       (constructor \<lparr>respond = \<lambda>r. Response (200::nat)\<rparr>,
        \<lparr>requests = [], console = [], uncaught = ([]::string list)\<rparr>)))) ''name''
     = Some \<lparr>ctl_value = JString ''Alice''\<rparr>
   \<and> ctl_value \<lparr>ctl_value = JString ''Alice''\<rparr> = JString ''Alice''
   \<and> onSubmit_formData (fst (run [SelectFiles \<lparr>target = \<lparr>files =
            [\<lparr>name = ''a.txt'', content = ''A''\<rparr>, \<lparr>name = ''b.png'', content = ''B''\<rparr>]\<rparr>\<rparr>,
          TypeName ''Alice'']
       (constructor \<lparr>respond = \<lambda>r. Response (200::nat)\<rparr>,
        \<lparr>requests = [], console = [], uncaught = ([]::string list)\<rparr>)))
     = [(''name'', Text ''Alice''),
        (''source_files'', FileEntry \<lparr>name = ''a.txt'', content = ''A''\<rparr> ''a.txt''),
        (''source_files'', FileEntry \<lparr>name = ''b.png'', content = ''B''\<rparr> ''b.png'')]"
proof -
  let ?c = "fst (run [SelectFiles \<lparr>target = \<lparr>files =
            [\<lparr>name = ''a.txt'', content = ''A''\<rparr>, \<lparr>name = ''b.png'', content = ''B''\<rparr>]\<rparr>\<rparr>,
          TypeName ''Alice'']
       (constructor \<lparr>respond = \<lambda>r. Response (200::nat)\<rparr>,
        \<lparr>requests = [], console = [], uncaught = ([]::string list)\<rparr>))"
  have h1: "get (myForm ?c) ''name'' = Some \<lparr>ctl_value = JString ''Alice''\<rparr>"
    by (simp add: constructor_def fb_group_def get_def user_input_def onFilesSelected_def)
  have h2: "ctl_value \<lparr>ctl_value = JString ''Alice''\<rparr> = JString ''Alice''"
    by simp
  have fs: "selectedFiles ?c =
      [\<lparr>name = ''a.txt'', content = ''A''\<rparr>, \<lparr>name = ''b.png'', content = ''B''\<rparr>]"
    by (simp add: constructor_def onFilesSelected_def Array_from_def)
  from submit_payload [OF h1 h2] have "onSubmit_formData ?c =
      (''name'', Text ''Alice'')
      # map (\<lambda>f. (''source_files'', FileEntry f (name f))) (selectedFiles ?c)"
    by (rule conjunct1)
  with fs have "onSubmit_formData ?c = [(''name'', Text ''Alice''),
        (''source_files'', FileEntry \<lparr>name = ''a.txt'', content = ''A''\<rparr> ''a.txt''),
        (''source_files'', FileEntry \<lparr>name = ''b.png'', content = ''B''\<rparr> ''b.png'')]"
    by simp
  with h1 h2 show ?thesis by blast
qed

text \<open>
  C3. Selecting files replaces the selection: selecting \<open>A\<close> and then \<open>B\<close> leaves the
  component as selecting \<open>B\<close> alone does, the selection is \<open>B\<close>'s file list, and the
  \<^verbatim>\<open>source_files\<close> entries of the form data built afterwards are \<open>B\<close>'s files only.
\<close>

theorem selectFiles_replaces:
  "onFilesSelected evB (onFilesSelected evA c) = onFilesSelected evB c
   \<and> selectedFiles (onFilesSelected evB (onFilesSelected evA c)) = files (target evB)
   \<and> onSubmit_formData (onFilesSelected evB (onFilesSelected evA c))
       = onSubmit_formData (onFilesSelected evB c)
   \<and> filter (\<lambda>p. fst p = ''source_files'')
         (onSubmit_formData (onFilesSelected evB (onFilesSelected evA c)))
       = map (\<lambda>f. (''source_files'', FileEntry f (name f))) (files (target evB))"
  by (simp add: filter_files_formData) (simp add: onFilesSelected_def Array_from_def)

text \<open>
  C4. When the name control holds the empty string, the form data has exactly one entry
  of key \<^verbatim>\<open>name\<close>, its value is the empty string, and it is the first entry of the
  body that is posted.
\<close>

theorem submit_empty_name:
  assumes "get (myForm c) ''name'' = Some ctl" and "ctl_value ctl = JString ''''"
  shows "filter (\<lambda>p. fst p = ''name'') (onSubmit_formData c) = [(''name'', Text '''')]
         \<and> hd (onSubmit_formData c) = (''name'', Text '''')
         \<and> map_option hd (body (last (requests (snd (onSubmit c w)))))
             = Some (''name'', Text '''')"
proof -
  have fd: "onSubmit_formData c =
      (''name'', Text '''')
      # map (\<lambda>f. (''source_files'', FileEntry f (name f))) (selectedFiles c)"
    using assms by (rule formData_of_string_name)
  then show ?thesis by (simp add: onSubmit_requests)
qed

theorem submit_empty_name_witness:
  "get (myForm (constructor \<lparr>respond = \<lambda>r. Response (200::nat)\<rparr>
          :: (nat, string) MyComponent)) ''name'' = Some \<lparr>ctl_value = JString ''''\<rparr>
   \<and> ctl_value \<lparr>ctl_value = JString ''''\<rparr> = JString ''''
   \<and> filter (\<lambda>p. fst p = ''name'')
        (onSubmit_formData (constructor \<lparr>respond = \<lambda>r. Response (200::nat)\<rparr>
          :: (nat, string) MyComponent)) = [(''name'', Text '''')]"
proof -
  let ?c = "constructor \<lparr>respond = \<lambda>r. Response (200::nat)\<rparr> :: (nat, string) MyComponent"
  have h1: "get (myForm ?c) ''name'' = Some \<lparr>ctl_value = JString ''''\<rparr>"
    by (simp add: constructor_def fb_group_def get_def)
  have h2: "ctl_value \<lparr>ctl_value = JString ''''\<rparr> = JString ''''"
    by simp
  from submit_empty_name [OF h1 h2]
  have "filter (\<lambda>p. fst p = ''name'') (onSubmit_formData ?c) = [(''name'', Text '''')]"
    by (rule conjunct1)
  with h1 h2 show ?thesis by blast
qed

section \<open>The submission form: failure of the request\<close>

text \<open>
  C5. When the POST fails with \<open>e\<close>, \<^verbatim>\<open>onSubmit\<close> still returns normally: nothing
  becomes an uncaught error, the console gets exactly one more line, the error line for
  \<open>e\<close>, and the component that the caller sees afterwards is the component as it was,
  with no trace of the failure.
\<close>

theorem submit_failure_logged:
  assumes "respond (http c)
             \<lparr>verb = POST, url = ''/your-api-endpoint'', body = Some (onSubmit_formData c)\<rparr>
           = Failure e"
  shows "uncaught (snd (onSubmit c w)) = uncaught w
         \<and> console (snd (onSubmit c w)) = console w @ [ConsoleError ''Error'' e]
         \<and> fst (onSubmit c w) = c"
  using assms by (simp add: onSubmit_component onSubmit_world)

theorem submit_failure_logged_witness:
  "respond (http (constructor \<lparr>respond = \<lambda>r. Failure ''offline''\<rparr> :: (nat, string) MyComponent))
     \<lparr>verb = POST, url = ''/your-api-endpoint'',
      body = Some (onSubmit_formData
        (constructor \<lparr>respond = \<lambda>r. Failure ''offline''\<rparr> :: (nat, string) MyComponent))\<rparr>
     = Failure ''offline''
   \<and> uncaught (snd (onSubmit
        (constructor \<lparr>respond = \<lambda>r. Failure ''offline''\<rparr> :: (nat, string) MyComponent)
        \<lparr>requests = [], console = [], uncaught = []\<rparr>)) = []
   \<and> console (snd (onSubmit
        (constructor \<lparr>respond = \<lambda>r. Failure ''offline''\<rparr> :: (nat, string) MyComponent)
        \<lparr>requests = [], console = [], uncaught = []\<rparr>)) = [ConsoleError ''Error'' ''offline'']"
proof -
  let ?c = "constructor \<lparr>respond = \<lambda>r. Failure ''offline''\<rparr> :: (nat, string) MyComponent"
  let ?w = "\<lparr>requests = [], console = [], uncaught = []\<rparr> :: (nat, string) world"
  have h: "respond (http ?c)
      \<lparr>verb = POST, url = ''/your-api-endpoint'', body = Some (onSubmit_formData ?c)\<rparr>
      = Failure ''offline''"
    by (simp add: constructor_def)
  from submit_failure_logged [OF h, of ?w]
  have "uncaught (snd (onSubmit ?c ?w)) = []
      \<and> console (snd (onSubmit ?c ?w)) = [ConsoleError ''Error'' ''offline'']"
    by simp
  with h show ?thesis by blast
qed

text \<open>
  C7. Nothing is rolled back when the POST fails: the file selection and the form, hence
  the name, are after \<^verbatim>\<open>onSubmit\<close> what they were before it.
\<close>

theorem submit_failure_keeps_selection:
  assumes "respond (http c)
             \<lparr>verb = POST, url = ''/your-api-endpoint'', body = Some (onSubmit_formData c)\<rparr>
           = Failure e"
  shows "selectedFiles (fst (onSubmit c w)) = selectedFiles c
         \<and> myForm (fst (onSubmit c w)) = myForm c
         \<and> get (myForm (fst (onSubmit c w))) ''name'' = get (myForm c) ''name''"
  by (simp add: onSubmit_component)

theorem submit_failure_keeps_selection_witness:
  "respond (http (\<lparr>http = \<lparr>respond = \<lambda>r. Failure ''offline''\<rparr>,
          myForm = fb_group [(''name'', JString ''Bob'')],
          selectedFiles = [\<lparr>name = ''a.txt'', content = ''A''\<rparr>]\<rparr> :: (nat, string) MyComponent))
     \<lparr>verb = POST, url = ''/your-api-endpoint'',
      body = Some (onSubmit_formData
        (\<lparr>http = \<lparr>respond = \<lambda>r. Failure ''offline''\<rparr>,
          myForm = fb_group [(''name'', JString ''Bob'')],
          selectedFiles = [\<lparr>name = ''a.txt'', content = ''A''\<rparr>]\<rparr> :: (nat, string) MyComponent))\<rparr>
     = Failure ''offline''
   \<and> selectedFiles (fst (onSubmit
        (\<lparr>http = \<lparr>respond = \<lambda>r. Failure ''offline''\<rparr>,
          myForm = fb_group [(''name'', JString ''Bob'')],
          selectedFiles = [\<lparr>name = ''a.txt'', content = ''A''\<rparr>]\<rparr> :: (nat, string) MyComponent)
        \<lparr>requests = [], console = [], uncaught = []\<rparr>))
     = [\<lparr>name = ''a.txt'', content = ''A''\<rparr>]
   \<and> get (myForm (fst (onSubmit
        (\<lparr>http = \<lparr>respond = \<lambda>r. Failure ''offline''\<rparr>,
          myForm = fb_group [(''name'', JString ''Bob'')],
          selectedFiles = [\<lparr>name = ''a.txt'', content = ''A''\<rparr>]\<rparr> :: (nat, string) MyComponent)
        \<lparr>requests = [], console = [], uncaught = []\<rparr>))) ''name''
     = Some \<lparr>ctl_value = JString ''Bob''\<rparr>"
proof -
  let ?c = "\<lparr>http = \<lparr>respond = \<lambda>r. Failure ''offline''\<rparr>,
          myForm = fb_group [(''name'', JString ''Bob'')],
          selectedFiles = [\<lparr>name = ''a.txt'', content = ''A''\<rparr>]\<rparr> :: (nat, string) MyComponent"
  let ?w = "\<lparr>requests = [], console = [], uncaught = []\<rparr> :: (nat, string) world"
  have h: "respond (http ?c)
      \<lparr>verb = POST, url = ''/your-api-endpoint'', body = Some (onSubmit_formData ?c)\<rparr>
      = Failure ''offline''"
    by simp
  from submit_failure_keeps_selection [OF h, of ?w]
  have "selectedFiles (fst (onSubmit ?c ?w)) = [\<lparr>name = ''a.txt'', content = ''A''\<rparr>]
      \<and> get (myForm (fst (onSubmit ?c ?w))) ''name'' = Some \<lparr>ctl_value = JString ''Bob''\<rparr>"
    by (simp add: fb_group_def get_def)
  with h show ?thesis by blast
qed

section \<open>The submission form: construction and determinism\<close>

text \<open>
  C8. A constructed component has a name control holding the empty string. After any
  sequence of file selections, typing into the name input and submissions, the name control
  is still there and holds a string \<open>s\<close>: the lookup in \<^verbatim>\<open>onSubmit\<close> finds the control,
  and the one entry of key \<^verbatim>\<open>name\<close> is the string \<open>s\<close>, never the text that
  \<^verbatim>\<open>undefined\<close> would give.
\<close>

theorem name_control_always_string:
  "get (myForm (constructor h)) ''name'' = Some \<lparr>ctl_value = JString ''''\<rparr>
   \<and> (\<exists>ctl s. get (myForm (fst (run as (constructor h, w)))) ''name'' = Some ctl
         \<and> ctl_value ctl = JString s
         \<and> filter (\<lambda>p. fst p = ''name'') (onSubmit_formData (fst (run as (constructor h, w))))
             = [(''name'', Text s)])"
proof -
  have init: "get (myForm (constructor h)) ''name'' = Some \<lparr>ctl_value = JString ''''\<rparr>"
    by (simp add: constructor_def fb_group_def get_def)
  let ?c = "fst (run as (constructor h, w))"
  have "name_is_string (myForm ?c)"
    by (rule name_is_string_run) (simp add: name_is_string_constructor)
  then obtain ctl s where ctl: "get (myForm ?c) ''name'' = Some ctl" "ctl_value ctl = JString s"
    using name_is_stringD by blast
  then have "filter (\<lambda>p. fst p = ''name'') (onSubmit_formData ?c) = [(''name'', Text s)]"
    by (simp add: formData_of_string_name)
  with ctl init show ?thesis by blast
qed

text \<open>
  C9. The form data and the request depend on the name control and the file selection
  only: two components that agree on both, whatever their HTTP clients and whatever the
  world they submit in, build the same form data and send the same request.
\<close>

theorem submit_deterministic:
  assumes "get (myForm c1) ''name'' = get (myForm c2) ''name''"
    and "selectedFiles c1 = selectedFiles c2"
  shows "onSubmit_formData c1 = onSubmit_formData c2
         \<and> last (requests (snd (onSubmit c1 w1))) = last (requests (snd (onSubmit c2 w2)))
         \<and> url (last (requests (snd (onSubmit c1 w1)))) = ''/your-api-endpoint''"
proof -
  from assms have "onSubmit_formData c1 = onSubmit_formData c2"
    by (simp add: onSubmit_formData_eq)
  then show ?thesis by (simp add: onSubmit_requests)
qed

theorem submit_deterministic_witness:
  "get (myForm (constructor \<lparr>respond = \<lambda>r. Failure ''offline''\<rparr> :: (nat, string) MyComponent))
     ''name''
     = get (myForm (constructor \<lparr>respond = \<lambda>r. Response 200\<rparr> :: (nat, string) MyComponent))
         ''name''
   \<and> selectedFiles (constructor \<lparr>respond = \<lambda>r. Failure ''offline''\<rparr> :: (nat, string) MyComponent)
     = selectedFiles (constructor \<lparr>respond = \<lambda>r. Response 200\<rparr> :: (nat, string) MyComponent)
   \<and> last (requests (snd (onSubmit
        (constructor \<lparr>respond = \<lambda>r. Failure ''offline''\<rparr> :: (nat, string) MyComponent)
        \<lparr>requests = [], console = [], uncaught = []\<rparr>)))
     = last (requests (snd (onSubmit
        (constructor \<lparr>respond = \<lambda>r. Response 200\<rparr> :: (nat, string) MyComponent)
        \<lparr>requests = [\<lparr>verb = GET, url = ''/api/config'', body = None\<rparr>],
         console = [], uncaught = []\<rparr>)))"
proof -
  let ?c1 = "constructor \<lparr>respond = \<lambda>r. Failure ''offline''\<rparr> :: (nat, string) MyComponent"
  let ?c2 = "constructor \<lparr>respond = \<lambda>r. Response 200\<rparr> :: (nat, string) MyComponent"
  have h1: "get (myForm ?c1) ''name'' = get (myForm ?c2) ''name''"
    by (simp add: constructor_def)
  have h2: "selectedFiles ?c1 = selectedFiles ?c2"
    by (simp add: constructor_def)
  from submit_deterministic [OF h1 h2]
  have "last (requests (snd (onSubmit ?c1 \<lparr>requests = [], console = [], uncaught = []\<rparr>)))
      = last (requests (snd (onSubmit ?c2
          \<lparr>requests = [\<lparr>verb = GET, url = ''/api/config'', body = None\<rparr>],
           console = [], uncaught = []\<rparr>)))"
    by blast
  with h1 h2 show ?thesis by blast
qed

text \<open>
  C10. The selection of a constructed component is empty, and it stays empty as long as
  no files are selected: after any typing and submitting, the form data of a submission
  has exactly one entry of key \<^verbatim>\<open>name\<close> and none of key \<^verbatim>\<open>source_files\<close>, and
  \<^verbatim>\<open>onSubmit\<close> then sends exactly one more request, the POST whose body is that single
  \<^verbatim>\<open>name\<close> entry. Submitting right after construction posts the single entry
  \<^verbatim>\<open>name\<close> with the empty string.
\<close>

theorem submit_before_selection:
  assumes "filter is_SelectFiles as = []"
  shows "selectedFiles (constructor h) = []
         \<and> onSubmit_formData (constructor h) = [(''name'', Text '''')]
         \<and> selectedFiles (fst (run as (constructor h, w))) = []
         \<and> length (filter (\<lambda>p. fst p = ''name'')
              (onSubmit_formData (fst (run as (constructor h, w))))) = 1
         \<and> filter (\<lambda>p. fst p = ''source_files'')
              (onSubmit_formData (fst (run as (constructor h, w)))) = []
         \<and> requests (snd (onSubmit (constructor h) w')) =
             requests w' @ [\<lparr>verb = POST, url = ''/your-api-endpoint'',
                               body = Some [(''name'', Text '''')]\<rparr>]
         \<and> (\<exists>s. get (myForm (fst (run as (constructor h, w)))) ''name''
                  = Some \<lparr>ctl_value = JString s\<rparr>
                \<and> onSubmit_formData (fst (run as (constructor h, w))) = [(''name'', Text s)]
                \<and> requests (snd (onSubmit (fst (run as (constructor h, w))) w')) =
                    requests w' @ [\<lparr>verb = POST, url = ''/your-api-endpoint'',
                                      body = Some [(''name'', Text s)]\<rparr>])"
proof -
  let ?c = "fst (run as (constructor h, w))"
  have init: "selectedFiles (constructor h) = []"
    by (simp add: constructor_def)
  have fd: "onSubmit_formData (constructor h) = [(''name'', Text '''')]"
    by (simp add: onSubmit_formData_eq) (simp add: constructor_def fb_group_def get_def)
  have sel: "selectedFiles ?c = []"
    using selectedFiles_run [OF assms, of "(constructor h, w)"] init by simp
  have counts: "length (filter (\<lambda>p. fst p = ''name'') (onSubmit_formData ?c)) = 1
      \<and> filter (\<lambda>p. fst p = ''source_files'') (onSubmit_formData ?c) = []"
    using sel by (simp add: filter_name_formData filter_files_formData)
  have post0: "requests (snd (onSubmit (constructor h) w')) =
      requests w' @ [\<lparr>verb = POST, url = ''/your-api-endpoint'',
                        body = Some [(''name'', Text '''')]\<rparr>]"
    by (simp add: onSubmit_requests fd)
  have "name_is_string (myForm ?c)"
    by (rule name_is_string_run) (simp add: name_is_string_constructor)
  then obtain ctl s where ctl: "get (myForm ?c) ''name'' = Some ctl" "ctl_value ctl = JString s"
    using name_is_stringD by blast
  from ctl(2) have "ctl = \<lparr>ctl_value = JString s\<rparr>"
    by (cases ctl) simp
  with ctl(1) have nm: "get (myForm ?c) ''name'' = Some \<lparr>ctl_value = JString s\<rparr>"
    by simp
  from ctl sel have fds: "onSubmit_formData ?c = [(''name'', Text s)]"
    by (simp add: formData_of_string_name)
  then have posts: "requests (snd (onSubmit ?c w')) =
      requests w' @ [\<lparr>verb = POST, url = ''/your-api-endpoint'',
                        body = Some [(''name'', Text s)]\<rparr>]"
    by (simp add: onSubmit_requests)
  from nm fds posts have last: "\<exists>s. get (myForm ?c) ''name'' = Some \<lparr>ctl_value = JString s\<rparr>
      \<and> onSubmit_formData ?c = [(''name'', Text s)]
      \<and> requests (snd (onSubmit ?c w')) =
          requests w' @ [\<lparr>verb = POST, url = ''/your-api-endpoint'',
                            body = Some [(''name'', Text s)]\<rparr>]"
    by blast
  from init fd sel counts post0 last show ?thesis by blast
qed

text \<open>
  The user types the name Alice and submits twice, never selecting a file: the second
  submission sends the POST with the single entry \<^verbatim>\<open>name\<close>.
\<close>

theorem submit_before_selection_witness:
  "filter is_SelectFiles [TypeName ''Alice'', Submit] = []
   \<and> onSubmit_formData (fst (run [TypeName ''Alice'', Submit]
        (constructor \<lparr>respond = \<lambda>r. Response (200::nat)\<rparr>,
         \<lparr>requests = [], console = [], uncaught = ([]::string list)\<rparr>)))
     = [(''name'', Text ''Alice'')]
   \<and> requests (snd (onSubmit (fst (run [TypeName ''Alice'', Submit]
        (constructor \<lparr>respond = \<lambda>r. Response (200::nat)\<rparr>,
         \<lparr>requests = [], console = [], uncaught = ([]::string list)\<rparr>)))
        \<lparr>requests = [], console = [], uncaught = ([]::string list)\<rparr>))
     = [\<lparr>verb = POST, url = ''/your-api-endpoint'',
         body = Some [(''name'', Text ''Alice'')]\<rparr>]"
proof -
  let ?w = "\<lparr>requests = [], console = [], uncaught = []\<rparr> :: (nat, string) world"
  let ?c = "fst (run [TypeName ''Alice'', Submit]
        (constructor \<lparr>respond = \<lambda>r. Response (200::nat)\<rparr>, ?w))"
  have h: "filter is_SelectFiles [TypeName ''Alice'', Submit] = []"
    by simp
  have nm: "get (myForm ?c) ''name'' = Some \<lparr>ctl_value = JString ''Alice''\<rparr>"
    by (simp add: onSubmit_component)
       (simp add: constructor_def fb_group_def get_def user_input_def)
  from submit_before_selection [OF h, of "\<lparr>respond = \<lambda>r. Response (200::nat)\<rparr>" ?w ?w]
  obtain s where s: "get (myForm ?c) ''name'' = Some \<lparr>ctl_value = JString s\<rparr>"
    and fd: "onSubmit_formData ?c = [(''name'', Text s)]"
    and rq: "requests (snd (onSubmit ?c ?w)) =
      requests ?w @ [\<lparr>verb = POST, url = ''/your-api-endpoint'',
                        body = Some [(''name'', Text s)]\<rparr>]"
    by blast
  from s nm have "s = ''Alice''"
    by simp
  with fd rq have "onSubmit_formData ?c = [(''name'', Text ''Alice'')]
      \<and> requests (snd (onSubmit ?c ?w)) =
          [\<lparr>verb = POST, url = ''/your-api-endpoint'',
            body = Some [(''name'', Text ''Alice'')]\<rparr>]"
    by simp
  with h show ?thesis by blast
qed

section \<open>The configuration fetch\<close>

text \<open>
  C2, as the specification words it, asks that every call of \<^verbatim>\<open>loadConfig\<close> issue
  exactly one GET. The call returns the cold handle without subscribing to it, so the
  call itself sends nothing, and how many requests go out is decided by the caller: here
  a bare call sends none, and one call whose handle the caller subscribes to twice
  sends two.
\<close>

theorem loadConfig_one_get_counterexample:
  "requests (snd (loadConfig
        (\<lparr>cfg_http = \<lparr>respond = \<lambda>r. Response (200::nat)\<rparr>\<rparr> :: (nat, string) ConfigService)
        \<lparr>requests = [], console = [], uncaught = []\<rparr>))
     \<noteq> [\<lparr>verb = GET, url = ''/api/config'', body = None\<rparr>]
   \<and> requests (snd (loadConfig
        (\<lparr>cfg_http = \<lparr>respond = \<lambda>r. Response (200::nat)\<rparr>\<rparr> :: (nat, string) ConfigService)
        \<lparr>requests = [], console = [], uncaught = []\<rparr>))
     = []
   \<and> requests
        (subscribe (fst (loadConfig
            (\<lparr>cfg_http = \<lparr>respond = \<lambda>r. Response (200::nat)\<rparr>\<rparr> :: (nat, string) ConfigService)
            \<lparr>requests = [], console = [], uncaught = []\<rparr>))
          (\<lambda>res. console_log ''config'' res) None
          (subscribe (fst (loadConfig
              (\<lparr>cfg_http = \<lparr>respond = \<lambda>r. Response (200::nat)\<rparr>\<rparr> :: (nat, string) ConfigService)
              \<lparr>requests = [], console = [], uncaught = []\<rparr>))
            (\<lambda>res. console_log ''config'' res) None
            (snd (loadConfig
              (\<lparr>cfg_http = \<lparr>respond = \<lambda>r. Response (200::nat)\<rparr>\<rparr> :: (nat, string) ConfigService)
              \<lparr>requests = [], console = [], uncaught = []\<rparr>))))
     = [\<lparr>verb = GET, url = ''/api/config'', body = None\<rparr>,
        \<lparr>verb = GET, url = ''/api/config'', body = None\<rparr>]"
  by (simp add: loadConfig_def http_get_def subscribe_def console_log_def Let_def)

text \<open>
  C2, amended. Every call of \<^verbatim>\<open>loadConfig\<close> sends nothing and writes nothing itself:
  it returns, as it is, the client's handle for one GET of the relative path
  \<^verbatim>\<open>/api/config\<close>, with no query string in the path and no body. Each subscription of
  that handle sends exactly that one GET and gives the subscriber the client's answer
  undigested; a subscriber whose callback leaves the world alone sees exactly one more
  request, and, nothing being cached, a second subscription sends the GET a second time.
\<close>

theorem loadConfig_get_per_subscription:
  "loadConfig svc w
     = (\<lparr>source = \<lparr>verb = GET, url = ''/api/config'', body = None\<rparr>,
         resolves = respond (cfg_http svc) \<lparr>verb = GET, url = ''/api/config'', body = None\<rparr>\<rparr>,
        w)
   \<and> loadConfig svc w = http_get (cfg_http svc) ''/api/config'' w
   \<and> CHR ''?'' \<notin> set ''/api/config''
   \<and> requests (snd (loadConfig svc w)) = requests w
   \<and> console (snd (loadConfig svc w)) = console w
   \<and> uncaught (snd (loadConfig svc w)) = uncaught w
   \<and> subscribe (fst (loadConfig svc w)) next error w'
       = (case respond (cfg_http svc) \<lparr>verb = GET, url = ''/api/config'', body = None\<rparr> of
            Response res \<Rightarrow>
              next res (w'\<lparr>requests := requests w'
                             @ [\<lparr>verb = GET, url = ''/api/config'', body = None\<rparr>]\<rparr>)
          | Failure err \<Rightarrow>
              (case error of
                 Some handler \<Rightarrow>
                   handler err (w'\<lparr>requests := requests w'
                                   @ [\<lparr>verb = GET, url = ''/api/config'', body = None\<rparr>]\<rparr>)
               | None \<Rightarrow>
                   w'\<lparr>requests := requests w'
                         @ [\<lparr>verb = GET, url = ''/api/config'', body = None\<rparr>],
                      uncaught := uncaught w' @ [err]\<rparr>))
   \<and> requests (subscribe (fst (loadConfig svc w)) (\<lambda>res v. v) None w')
       = requests w' @ [\<lparr>verb = GET, url = ''/api/config'', body = None\<rparr>]
   \<and> requests (subscribe (fst (loadConfig svc w)) (\<lambda>res v. v) None
         (subscribe (fst (loadConfig svc w)) (\<lambda>res v. v) None w'))
       = requests w' @ [\<lparr>verb = GET, url = ''/api/config'', body = None\<rparr>,
                        \<lparr>verb = GET, url = ''/api/config'', body = None\<rparr>]"
proof -
  let ?r = "\<lparr>verb = GET, url = ''/api/config'', body = None\<rparr>"
  have call: "loadConfig svc w = (\<lparr>source = ?r, resolves = respond (cfg_http svc) ?r\<rparr>, w)"
    by (simp add: loadConfig_def http_get_def Let_def)
  have same: "loadConfig svc w = http_get (cfg_http svc) ''/api/config'' w"
    by (simp add: loadConfig_def)
  have path: "CHR ''?'' \<notin> set ''/api/config''"
    by simp
  have sub: "subscribe (fst (loadConfig svc w)) next error w'
       = (case respond (cfg_http svc) ?r of
            Response res \<Rightarrow> next res (w'\<lparr>requests := requests w' @ [?r]\<rparr>)
          | Failure err \<Rightarrow>
              (case error of
                 Some handler \<Rightarrow> handler err (w'\<lparr>requests := requests w' @ [?r]\<rparr>)
               | None \<Rightarrow> w'\<lparr>requests := requests w' @ [?r],
                              uncaught := uncaught w' @ [err]\<rparr>))"
    by (simp add: call subscribe_def Let_def split: outcome.splits option.splits)
  have once: "requests (subscribe (fst (loadConfig svc w)) (\<lambda>res v. v) None v)
      = requests v @ [?r]" for v :: "('a, 'b) world"
    by (simp add: call subscribe_def Let_def split: outcome.splits)
  have twice: "requests (subscribe (fst (loadConfig svc w)) (\<lambda>res v. v) None
         (subscribe (fst (loadConfig svc w)) (\<lambda>res v. v) None w'))
       = requests w' @ [?r, ?r]"
    by (simp add: once)
  from call same path sub once [of w'] twice show ?thesis
    by simp
qed

text \<open>
  C6. \<^verbatim>\<open>loadConfig\<close> handles no failure itself. When the GET fails with \<open>e\<close>, the call
  writes nothing to the console and reports no uncaught error; the handle it returned
  resolves to that failure \<open>e\<close>; a caller that subscribes with an error callback has it
  called with \<open>e\<close> itself, in the world where the GET has been sent, and a caller that
  subscribes with none gets \<open>e\<close> as an uncaught error.
\<close>

theorem loadConfig_failure_to_caller:
  assumes "respond (cfg_http svc) \<lparr>verb = GET, url = ''/api/config'', body = None\<rparr> = Failure e"
  shows "resolves (fst (loadConfig svc w)) = Failure e
         \<and> console (snd (loadConfig svc w)) = console w
         \<and> uncaught (snd (loadConfig svc w)) = uncaught w
         \<and> subscribe (fst (loadConfig svc w)) next (Some handler) w'
             = handler e (w'\<lparr>requests := requests w'
                               @ [\<lparr>verb = GET, url = ''/api/config'', body = None\<rparr>]\<rparr>)
         \<and> subscribe (fst (loadConfig svc w)) next None w'
             = w'\<lparr>requests := requests w'
                     @ [\<lparr>verb = GET, url = ''/api/config'', body = None\<rparr>],
                  uncaught := uncaught w' @ [e]\<rparr>"
  using assms by (simp add: loadConfig_def http_get_def subscribe_def Let_def)

theorem loadConfig_failure_to_caller_witness:
  "respond (cfg_http \<lparr>cfg_http = \<lparr>respond = \<lambda>r. Failure ''offline''\<rparr>\<rparr>)
      \<lparr>verb = GET, url = ''/api/config'', body = None\<rparr> = (Failure ''offline'' :: (nat, string) outcome)
   \<and> resolves (fst (loadConfig \<lparr>cfg_http = \<lparr>respond = \<lambda>r. Failure ''offline''\<rparr>\<rparr>
        \<lparr>requests = [], console = [], uncaught = []\<rparr>))
     = (Failure ''offline'' :: (nat, string) outcome)
   \<and> subscribe (fst (loadConfig \<lparr>cfg_http = \<lparr>respond = \<lambda>r. Failure ''offline''\<rparr>\<rparr>
        \<lparr>requests = [], console = [], uncaught = []\<rparr>))
        (\<lambda>res. console_log ''config'' res) (Some (\<lambda>err. console_error ''caller saw'' err))
        \<lparr>requests = [], console = [], uncaught = []\<rparr>
     = (\<lparr>requests = [\<lparr>verb = GET, url = ''/api/config'', body = None\<rparr>],
         console = [ConsoleError ''caller saw'' ''offline''], uncaught = []\<rparr>
        :: (nat, string) world)"
proof -
  let ?svc = "\<lparr>cfg_http = \<lparr>respond = \<lambda>r. Failure ''offline''\<rparr>\<rparr> :: (nat, string) ConfigService"
  let ?w = "\<lparr>requests = [], console = [], uncaught = []\<rparr> :: (nat, string) world"
  have h: "respond (cfg_http ?svc) \<lparr>verb = GET, url = ''/api/config'', body = None\<rparr>
      = Failure ''offline''"
    by simp
  from loadConfig_failure_to_caller [OF h, of ?w]
  have "resolves (fst (loadConfig ?svc ?w)) = Failure ''offline''
      \<and> subscribe (fst (loadConfig ?svc ?w))
          (\<lambda>res. console_log ''config'' res) (Some (\<lambda>err. console_error ''caller saw'' err)) ?w
        = \<lparr>requests = [\<lparr>verb = GET, url = ''/api/config'', body = None\<rparr>],
           console = [ConsoleError ''caller saw'' ''offline''], uncaught = []\<rparr>"
    by (simp add: console_error_def)
  with h show ?thesis by blast
qed

end
